theory Spec2Isabelle
  imports
    Main
    "HOL-Library.Char_ord"
    "HOL-Library.List_Lexorder"
    "HOL-Library.Sublist"
    "HOL-Library.AList"
begin

section \<open>Python values, errors and dictionaries\<close>

text \<open>
  The noxfile works on a handful of Python values: \<open>None\<close>, booleans, strings, lists of
  strings and dictionaries from strings to strings. These are the shapes the default
  configuration uses. Strings are compared the way Python compares \<open>str\<close>: character by
  character, a proper prefix being smaller (the order of \<open>List_Lexorder\<close> over \<open>Char_ord\<close>).
\<close>

datatype pyval =
    PyNone
  | PyBool bool
  | PyStr string
  | PyStrList "string list"
  | PyStrDict "(string \<times> string) list"

datatype error =
    KeyError string
  | TypeError
  | ValueError
  | UnboundLocalError string
  | IsADirectoryError
  | FileNotFoundError
  | CommandFailed
  | Exception string

text \<open>\<open>d[k]\<close> on a dictionary: a missing key raises \<open>KeyError\<close>.\<close>

definition subscript :: "(string \<rightharpoonup> 'v) \<Rightarrow> string \<Rightarrow> error + 'v" where
  "subscript d k = (case d k of None \<Rightarrow> Inl (KeyError k) | Some v \<Rightarrow> Inr v)"

text \<open>Truth value of a Python object, as \<open>if x:\<close> and \<open>bool(x)\<close> compute it.\<close>

fun truthy :: "pyval \<Rightarrow> bool" where
  "truthy PyNone = False"
| "truthy (PyBool b) = b"
| "truthy (PyStr s) = (s \<noteq> [])"
| "truthy (PyStrList xs) = (xs \<noteq> [])"
| "truthy (PyStrDict d) = (d \<noteq> [])"

text \<open>
  \<open>v in c\<close> for a string \<open>v\<close>: membership in a list, substring of a string, key of a
  dictionary; \<open>None\<close> and booleans are not iterable.
\<close>

fun py_in :: "string \<Rightarrow> pyval \<Rightarrow> error + bool" where
  "py_in v (PyStrList xs) = Inr (v \<in> set xs)"
| "py_in v (PyStr s) = Inr (sublist v s)"
| "py_in v (PyStrDict d) = Inr (v \<in> fst ` set d)"
| "py_in v PyNone = Inl TypeError"
| "py_in v (PyBool b) = Inl TypeError"

section \<open>The configuration: defaults merged with the override\<close>

type_synonym config = "string \<rightharpoonup> pyval"

definition TEST_CONFIG_default :: config where
  "TEST_CONFIG_default = map_of
     [(''ignored_versions'', PyStrList [''2.7'', ''3.7'', ''3.8'', ''3.10'', ''3.11'', ''3.12'']),
      (''enforce_type_hints'', PyBool False),
      (''gcloud_project_env'', PyStr ''GOOGLE_CLOUD_PROJECT''),
      (''pip_version_override'', PyNone),
      (''envs'', PyStrDict [])]"

text \<open>
  \<open>from noxfile_config import TEST_CONFIG_OVERRIDE\<close>: the argument is what the import
  yields, \<open>None\<close> when it raises \<open>ImportError\<close> (no override file); the handler then
  binds the empty dictionary.
\<close>

definition TEST_CONFIG_OVERRIDE :: "config option \<Rightarrow> config" where
  "TEST_CONFIG_OVERRIDE imported = (case imported of None \<Rightarrow> Map.empty | Some ov \<Rightarrow> ov)"

text \<open>\<open>TEST_CONFIG.update(TEST_CONFIG_OVERRIDE)\<close>.\<close>

definition TEST_CONFIG :: "config option \<Rightarrow> config" where
  "TEST_CONFIG imported = TEST_CONFIG_default ++ TEST_CONFIG_OVERRIDE imported"

section \<open>Tested versions\<close>

definition ALL_VERSIONS :: "string list" where
  "ALL_VERSIONS = [''2.7'', ''3.8'', ''3.9'', ''3.10'', ''3.11'', ''3.12'', ''3.13'']"

definition IGNORED_VERSIONS :: "config \<Rightarrow> error + pyval" where
  "IGNORED_VERSIONS cfg = subscript cfg ''ignored_versions''"

text \<open>\<open>[v for v in vs if v not in c]\<close>; the test raises at the first element it fails on.\<close>

fun not_in_comprehension :: "string list \<Rightarrow> pyval \<Rightarrow> error + string list" where
  "not_in_comprehension [] c = Inr []"
| "not_in_comprehension (v # vs) c =
     (case py_in v c of
        Inl e \<Rightarrow> Inl e
      | Inr b \<Rightarrow>
          (case not_in_comprehension vs c of
             Inl e \<Rightarrow> Inl e
           | Inr r \<Rightarrow> Inr (if b then r else v # r)))"

definition TESTED_VERSIONS :: "config \<Rightarrow> error + string list" where
  "TESTED_VERSIONS cfg =
     (case IGNORED_VERSIONS cfg of
        Inl e \<Rightarrow> Inl e
      | Inr ign \<Rightarrow>
          (case not_in_comprehension ALL_VERSIONS ign of
             Inl e \<Rightarrow> Inl e
           | Inr vs \<Rightarrow> Inr (sort vs)))"

text \<open>
  \<open>LINTING_VERSION\<close>: the source comments it as the oldest tested version and takes
  \<open>TESTED_VERSIONS[0]\<close> for it, \<open>"3.10"\<close> when nothing is tested.
\<close>

definition LINTING_VERSION :: "config \<Rightarrow> error + string" where
  "LINTING_VERSION cfg =
     (case TESTED_VERSIONS cfg of
        Inl e \<Rightarrow> Inl e
      | Inr tv \<Rightarrow> Inr (if length tv > 0 then tv ! 0 else ''3.10''))"

section \<open>Environment variables for the test runner\<close>

definition bind_err :: "error + 'a \<Rightarrow> ('a \<Rightarrow> error + 'b) \<Rightarrow> error + 'b" where
  "bind_err m f = (case m of Inl e \<Rightarrow> Inl e | Inr x \<Rightarrow> f x)"

text \<open>\<open>os.environ[key]\<close>: a key that is not a string is a \<open>TypeError\<close>, an unset one a \<open>KeyError\<close>.\<close>

fun environ_getitem :: "(string \<rightharpoonup> string) \<Rightarrow> pyval \<Rightarrow> error + string" where
  "environ_getitem env (PyStr k) = subscript env k"
| "environ_getitem env PyNone = Inl TypeError"
| "environ_getitem env (PyBool b) = Inl TypeError"
| "environ_getitem env (PyStrList xs) = Inl TypeError"
| "environ_getitem env (PyStrDict d) = Inl TypeError"

text \<open>
  A Python \<open>dict\<close> from strings to strings, in insertion order: storing under a key that is
  present keeps its position, a new key goes to the end.
\<close>

type_synonym pydict = "(string \<times> string) list"

definition setitem :: "string \<Rightarrow> string \<Rightarrow> pydict \<Rightarrow> pydict" where
  "setitem k v d = AList.update k v d"

text \<open>
  \<open>ret.update(seq)\<close> for a sequence of strings: each element has to be of length 2, its
  first character the key and its second the value; any other length is a \<open>ValueError\<close>.
\<close>

fun update_from_pairs :: "pydict \<Rightarrow> string list \<Rightarrow> error + pydict" where
  "update_from_pairs ret [] = Inr ret"
| "update_from_pairs ret (x # xs) =
     (case x of
        [k, v] \<Rightarrow> update_from_pairs (setitem [k] [v] ret) xs
      | _ \<Rightarrow> Inl ValueError)"

fun dict_update :: "pydict \<Rightarrow> pyval \<Rightarrow> error + pydict" where
  "dict_update ret (PyStrDict d) = Inr (fold (\<lambda>(k, v). setitem k v) d ret)"
| "dict_update ret (PyStrList xs) = update_from_pairs ret xs"
| "dict_update ret (PyStr s) = update_from_pairs ret (map (\<lambda>c. [c]) s)"
| "dict_update ret PyNone = Inl TypeError"
| "dict_update ret (PyBool b) = Inl TypeError"

definition get_pytest_env_vars :: "config \<Rightarrow> (string \<rightharpoonup> string) \<Rightarrow> error + pydict" where
  "get_pytest_env_vars cfg environ =
     bind_err (subscript cfg ''gcloud_project_env'') (\<lambda>env_key.
     bind_err (environ_getitem environ env_key) (\<lambda>v1.
     bind_err (environ_getitem environ env_key) (\<lambda>v2.
     bind_err (subscript cfg ''envs'') (\<lambda>envs.
       dict_update (setitem ''GCLOUD_PROJECT'' v2 (setitem ''GOOGLE_CLOUD_PROJECT'' v1 [])) envs))))"

section \<open>The repository root\<close>

text \<open>
  An absolute path is the list of its components below the filesystem root, the root
  itself being the empty list. \<open>Path.parent\<close> of the root is the root.
\<close>

type_synonym path = "string list"

definition parent :: "path \<Rightarrow> path" where
  "parent p = butlast p"

definition str_path :: "path \<Rightarrow> string" where
  "str_path p = (if p = [] then ''/'' else concat (map (\<lambda>c. ''/'' @ c) p))"

text \<open>
  The filesystem outside the current directory is the list of the paths that exist;
  \<open>Path.exists\<close> asks for membership and does not look at the kind of the entry.
\<close>

type_synonym filesystem = "path list"

definition exists_path :: "filesystem \<Rightarrow> path \<Rightarrow> bool" where
  "exists_path fs p = (p \<in> set fs)"

text \<open>
  The loop \<open>for i in range(10)\<close> of \<open>_get_repo_root\<close>, with the number of iterations left.
  \<open>Path.parent\<close> never yields \<open>None\<close>, so the \<open>break\<close> is never taken; it is kept as the
  source has it.
\<close>

fun repo_root_loop :: "nat \<Rightarrow> filesystem \<Rightarrow> path option \<Rightarrow> error + string" where
  "repo_root_loop 0 fs p = Inl (Exception ''Unable to detect repository root.'')"
| "repo_root_loop (Suc n) fs None = Inl (Exception ''Unable to detect repository root.'')"
| "repo_root_loop (Suc n) fs (Some p) =
     (if exists_path fs (p @ [''.git'']) then Inr (str_path p)
      else repo_root_loop n fs (Some (parent p)))"

definition get_repo_root :: "filesystem \<Rightarrow> path \<Rightarrow> error + string" where
  "get_repo_root fs cwd = repo_root_loop 10 fs (Some cwd)"

section \<open>The current directory\<close>

text \<open>
  The top-level entries of the current directory, by name: a regular file with its text,
  or a directory. The directory is taken as fixed while a task runs.
\<close>

datatype entry = File string | Dir

type_synonym directory = "(string \<times> entry) list"

definition listdir :: "directory \<Rightarrow> string list" where
  "listdir d = map fst d"

definition isdir :: "directory \<Rightarrow> string \<Rightarrow> bool" where
  "isdir d name = (map_of d name = Some Dir)"

definition path_exists :: "directory \<Rightarrow> string \<Rightarrow> bool" where
  "path_exists d name = (map_of d name \<noteq> None)"

text \<open>
  \<open>os.path.splitext\<close> on a name without separators: the extension starts at the last
  dot, unless only dots come before it.
\<close>

definition splitext :: "string \<Rightarrow> string \<times> string" where
  "splitext p =
     (let ext = rev (takeWhile (\<lambda>c. c \<noteq> CHR ''.'') (rev p));
          stem = take (length p - length ext - 1) p
      in if CHR ''.'' \<in> set p \<and> filter (\<lambda>c. c \<noteq> CHR ''.'') stem \<noteq> []
         then (stem, drop (length stem) p)
         else (p, []))"

text \<open>
  \<open>_determine_local_import_names\<close>. The source tests \<open>basename not in ("__pycache__")\<close>;
  the parentheses do not make a tuple, so this is the substring test on the string
  \<open>"__pycache__"\<close>. \<open>isdir\<close> is asked of the name without its extension.
\<close>

definition determine_local_import_names :: "directory \<Rightarrow> string list" where
  "determine_local_import_names start_dir =
     (let file_ext_pairs = map splitext (listdir start_dir)
      in [basename. (basename, extension) \<leftarrow> file_ext_pairs,
            extension = ''.py''
            \<or> (isdir start_dir basename \<and> \<not> sublist basename ''__pycache__'')])"

section \<open>The test task\<close>

text \<open>
  What a task does to the outside: printing, \<open>session.install\<close>, the post-install hook
  and \<open>session.run\<close>. \<open>InstallPinnedPip v\<close> stands for
  \<open>session.install(f"pip=={v}")\<close>, the value kept as it is. \<open>Run\<close> carries the command
  line, the success codes and the environment passed to the runner.
\<close>

datatype effect =
    Print string
  | Install "string list"
  | InstallPinnedPip pyval
  | CallPostInstall
  | Run "string list" "nat list" pydict

text \<open>
  What the task reads from the outside: the process environment, the working directory
  and the paths that exist above it, the entries of the working directory, and the exit
  status each external command ends with.
\<close>

record world =
  os_environ :: "string \<rightharpoonup> string"
  os_getcwd :: path
  os_fs :: filesystem
  os_dir :: directory
  exit_code :: "effect \<Rightarrow> nat"

text \<open>
  A step yields its outcome, an error when it raises, and the effects it had up to
  there. \<open>bind_io\<close> runs the next step only after a step that did not raise.
\<close>

type_synonym 'a io = "(error + 'a) \<times> effect list"

definition return_io :: "'a \<Rightarrow> 'a io" where
  "return_io x = (Inr x, [])"

definition lift_io :: "error + 'a \<Rightarrow> 'a io" where
  "lift_io r = (r, [])"

definition bind_io :: "'a io \<Rightarrow> ('a \<Rightarrow> 'b io) \<Rightarrow> 'b io" where
  "bind_io m f =
     (case m of
        (Inl e, es) \<Rightarrow> (Inl e, es)
      | (Inr x, es) \<Rightarrow> (case f x of (r, es') \<Rightarrow> (r, es @ es')))"

text \<open>
  The two calls into nox: \<open>session.install\<close> fails the task unless the installer exits
  with 0, \<open>session.run\<close> unless the exit status is one of \<open>success_codes\<close>.
\<close>

definition session_install :: "world \<Rightarrow> effect \<Rightarrow> unit io" where
  "session_install w c = (if exit_code w c = 0 then Inr () else Inl CommandFailed, [c])"

definition session_run :: "world \<Rightarrow> string list \<Rightarrow> nat list \<Rightarrow> pydict \<Rightarrow> unit io" where
  "session_run w args success_codes env =
     (if exit_code w (Run args success_codes env) \<in> set success_codes
      then Inr () else Inl CommandFailed,
      [Run args success_codes env])"

text \<open>
  \<open>glob.glob\<close> in the working directory, for a pattern \<open>pre*suf\<close> that does not start
  with a dot (names starting with a dot are then skipped), and for a pattern without
  wildcard, which matches the entry of that very name, whatever its kind.
\<close>

definition glob_star :: "string \<Rightarrow> string \<Rightarrow> directory \<Rightarrow> string list" where
  "glob_star pre suf d =
     [n \<leftarrow> listdir d. \<not> prefix ''.'' n \<and> prefix pre n \<and> suffix suf (drop (length pre) n)]"

definition glob_literal :: "string \<Rightarrow> directory \<Rightarrow> string list" where
  "glob_literal name d = (if path_exists d name then [name] else [])"

definition test_list :: "directory \<Rightarrow> string list" where
  "test_list d =
     (glob_star [] ''_test.py'' d @ glob_star ''test_'' ''.py'' d) @ glob_literal ''tests'' d"

text \<open>\<open>with open(name) as f: ... f.read()\<close>.\<close>

definition open_read :: "directory \<Rightarrow> string \<Rightarrow> error + string" where
  "open_read d name =
     (case map_of d name of
        None \<Rightarrow> Inl FileNotFoundError
      | Some Dir \<Rightarrow> Inl IsADirectoryError
      | Some (File txt) \<Rightarrow> Inr txt)"

definition INSTALL_LIBRARY_FROM_SOURCE :: "world \<Rightarrow> bool" where
  "INSTALL_LIBRARY_FROM_SOURCE w =
     (case os_environ w ''INSTALL_LIBRARY_FROM_SOURCE'' of None \<Rightarrow> False | Some s \<Rightarrow> s \<noteq> [])"

definition PYTEST_COMMON_ARGS :: "string list" where
  "PYTEST_COMMON_ARGS = [''--junitxml=sponge_log.xml'']"

text \<open>The steps of \<open>_session_tests\<close> after the check for tests, in the order of the source.\<close>

definition install_pip :: "config \<Rightarrow> world \<Rightarrow> unit io" where
  "install_pip cfg w =
     bind_io (lift_io (subscript cfg ''pip_version_override'')) (\<lambda>pip_version.
       if truthy pip_version then session_install w (InstallPinnedPip pip_version)
       else session_install w (Install [''--upgrade'', ''pip'']))"

text \<open>
  The local variable \<open>packages\<close> is bound only inside \<open>if os.path.exists("requirements.txt")\<close>;
  \<open>None\<close> is the unbound variable.
\<close>

definition install_requirements :: "world \<Rightarrow> string option io" where
  "install_requirements w =
     (if path_exists (os_dir w) ''requirements.txt'' then
        bind_io (lift_io (open_read (os_dir w) ''requirements.txt'')) (\<lambda>packages.
        bind_io
          (if path_exists (os_dir w) ''constraints.txt'' then
             session_install w (Install [''-r'', ''requirements.txt'', ''-c'', ''constraints.txt'',
               ''--only-binary'', '':all''])
           else if sublist ''pyspark'' packages then
             session_install w (Install [''-r'', ''requirements.txt'', ''--use-pep517''])
           else
             session_install w (Install [''-r'', ''requirements.txt'', ''--only-binary'', '':all'']))
          (\<lambda>_. return_io (Some packages)))
      else return_io None)"

text \<open>\<open>packages += rtfile.read()\<close> reads \<open>packages\<close> first.\<close>

definition install_test_requirements :: "world \<Rightarrow> string option \<Rightarrow> string option io" where
  "install_test_requirements w packages =
     (if path_exists (os_dir w) ''requirements-test.txt'' then
        bind_io (lift_io (open_read (os_dir w) ''requirements-test.txt'')) (\<lambda>txt.
        bind_io (lift_io (case packages of
                            None \<Rightarrow> Inl (UnboundLocalError ''packages'')
                          | Some p \<Rightarrow> Inr (p @ txt))) (\<lambda>packages'.
        bind_io
          (if path_exists (os_dir w) ''constraints-test.txt'' then
             session_install w (Install [''-r'', ''requirements-test.txt'', ''-c'',
               ''constraints-test.txt'', ''--only-binary'', '':all''])
           else
             session_install w (Install [''-r'', ''requirements-test.txt'', ''--only-binary'',
               '':all'']))
          (\<lambda>_. return_io (Some packages'))))
      else return_io packages)"

definition install_from_source :: "world \<Rightarrow> unit io" where
  "install_from_source w =
     (if INSTALL_LIBRARY_FROM_SOURCE w then
        bind_io (lift_io (get_repo_root (os_fs w) (os_getcwd w))) (\<lambda>root.
          session_install w (Install [''-e'', root]))
      else return_io ())"

text \<open>
  The caller's hook, given by its outcome; \<open>None\<close> is the default argument, for which
  nothing is called.
\<close>

definition run_post_install :: "(error + unit) option \<Rightarrow> unit io" where
  "run_post_install post_install =
     (case post_install of None \<Rightarrow> return_io () | Some outcome \<Rightarrow> (outcome, [CallPostInstall]))"

definition concurrent_args :: "string option \<Rightarrow> error + string list" where
  "concurrent_args packages =
     (case packages of
        None \<Rightarrow> Inl (UnboundLocalError ''packages'')
      | Some p \<Rightarrow>
          Inr (if sublist ''pytest-parallel'' p
               then [''--workers'', ''auto'', ''--tests-per-worker'', ''auto'']
               else if sublist ''pytest-xdist'' p then [''-n'', ''auto'']
               else []))"

text \<open>
  \<open>_session_tests\<close>. The arguments of \<open>session.run\<close>, among them
  \<open>env=get_pytest_env_vars()\<close>, are computed before the runner is started.
\<close>

definition session_tests ::
  "config \<Rightarrow> world \<Rightarrow> string list \<Rightarrow> (error + unit) option \<Rightarrow> unit io" where
  "session_tests cfg w posargs post_install =
     (if length (test_list (os_dir w)) = 0 then
        (Inr (), [Print ''No tests found, skipping directory.''])
      else
        bind_io (install_pip cfg w) (\<lambda>_.
        bind_io (install_requirements w) (\<lambda>packages.
        bind_io (install_test_requirements w packages) (\<lambda>packages.
        bind_io (install_from_source w) (\<lambda>_.
        bind_io (run_post_install post_install) (\<lambda>_.
        bind_io (lift_io (concurrent_args packages)) (\<lambda>concurrent.
        bind_io (lift_io (get_pytest_env_vars cfg (os_environ w))) (\<lambda>env.
          session_run w (''pytest'' # PYTEST_COMMON_ARGS @ posargs @ concurrent) [0, 5] env))))))))"

section \<open>Properties of the configuration\<close>

lemma not_in_comprehension_list:
  "not_in_comprehension vs (PyStrList ign) = Inr (filter (\<lambda>v. v \<notin> set ign) vs)"
  by (induction vs) simp_all

lemma distinct_ALL_VERSIONS: "distinct ALL_VERSIONS"
  by (simp add: ALL_VERSIONS_def)

text \<open>
  C5. Without an override file (the import fails), and likewise with an empty override
  dictionary, the effective configuration is the default one: it has exactly the five
  documented keys, each with its documented value.
\<close>

theorem TEST_CONFIG_no_override:
  "TEST_CONFIG None = TEST_CONFIG_default
   \<and> TEST_CONFIG (Some Map.empty) = TEST_CONFIG_default
   \<and> dom (TEST_CONFIG None) =
       {''ignored_versions'', ''enforce_type_hints'', ''gcloud_project_env'',
        ''pip_version_override'', ''envs''}
   \<and> TEST_CONFIG None ''ignored_versions'' =
       Some (PyStrList [''2.7'', ''3.7'', ''3.8'', ''3.10'', ''3.11'', ''3.12''])
   \<and> TEST_CONFIG None ''enforce_type_hints'' = Some (PyBool False)
   \<and> TEST_CONFIG None ''gcloud_project_env'' = Some (PyStr ''GOOGLE_CLOUD_PROJECT'')
   \<and> TEST_CONFIG None ''pip_version_override'' = Some PyNone
   \<and> TEST_CONFIG None ''envs'' = Some (PyStrDict [])"
proof -
  have a: "TEST_CONFIG None = TEST_CONFIG_default"
    by (simp add: TEST_CONFIG_def TEST_CONFIG_OVERRIDE_def)
  have b: "TEST_CONFIG (Some Map.empty) = TEST_CONFIG_default"
    by (simp add: TEST_CONFIG_def TEST_CONFIG_OVERRIDE_def)
  have c: "dom TEST_CONFIG_default =
       {''ignored_versions'', ''enforce_type_hints'', ''gcloud_project_env'',
        ''pip_version_override'', ''envs''}"
    unfolding TEST_CONFIG_default_def dom_map_of_conv_image_fst by auto
  show ?thesis
    unfolding a b c by (simp add: TEST_CONFIG_default_def)
qed

text \<open>
  C6. When the override supplies only recognised keys, the effective configuration has
  the override's value at every supplied key and the default value at every other key,
  and it has no key beyond the recognised ones.
\<close>

theorem TEST_CONFIG_override_subset:
  assumes "dom ov \<subseteq> dom TEST_CONFIG_default"
  shows "TEST_CONFIG (Some ov) k = (if k \<in> dom ov then ov k else TEST_CONFIG_default k)
         \<and> dom (TEST_CONFIG (Some ov)) = dom TEST_CONFIG_default"
proof -
  have "TEST_CONFIG (Some ov) k = (if k \<in> dom ov then ov k else TEST_CONFIG_default k)"
    by (auto simp: TEST_CONFIG_def TEST_CONFIG_OVERRIDE_def map_add_def split: option.splits)
  moreover have "dom (TEST_CONFIG (Some ov)) = dom TEST_CONFIG_default"
    using assms by (auto simp: TEST_CONFIG_def TEST_CONFIG_OVERRIDE_def)
  ultimately show ?thesis by simp
qed

theorem TEST_CONFIG_override_subset_witness:
  "dom [''enforce_type_hints'' \<mapsto> PyBool True] \<subseteq> dom TEST_CONFIG_default
   \<and> TEST_CONFIG (Some [''enforce_type_hints'' \<mapsto> PyBool True]) ''enforce_type_hints''
       = Some (PyBool True)
   \<and> TEST_CONFIG (Some [''enforce_type_hints'' \<mapsto> PyBool True]) ''envs''
       = Some (PyStrDict [])"
proof -
  have h: "dom [''enforce_type_hints'' \<mapsto> PyBool True] \<subseteq> dom TEST_CONFIG_default"
    by (simp add: TEST_CONFIG_default_def)
  show ?thesis
    using h
      TEST_CONFIG_override_subset [OF h, of "''enforce_type_hints''"]
      TEST_CONFIG_override_subset [OF h, of "''envs''"]
    by (simp add: TEST_CONFIG_default_def)
qed

lemma TESTED_VERSIONS_members:
  assumes "cfg ''ignored_versions'' = Some (PyStrList ign)"
  shows "\<exists>tv. TESTED_VERSIONS cfg = Inr tv \<and> distinct tv
           \<and> set tv = set ALL_VERSIONS - set ign"
proof -
  have "TESTED_VERSIONS cfg = Inr (sort (filter (\<lambda>v. v \<notin> set ign) ALL_VERSIONS))"
    using assms
    by (simp add: TESTED_VERSIONS_def IGNORED_VERSIONS_def subscript_def
        not_in_comprehension_list)
  moreover have "distinct (sort (filter (\<lambda>v. v \<notin> set ign) ALL_VERSIONS))"
    using distinct_ALL_VERSIONS by simp
  moreover have "set (sort (filter (\<lambda>v. v \<notin> set ign) ALL_VERSIONS))
      = set ALL_VERSIONS - set ign"
    by auto
  ultimately show ?thesis by simp
qed

text \<open>
  C1 fails on the code. \<open>sorted\<close> compares the version strings character by character,
  so \<open>"3.13"\<close> comes before \<open>"3.9"\<close>: under the default configuration
  \<open>TESTED_VERSIONS\<close> is \<open>["3.13", "3.9"]\<close>, the newer version first, and not the
  versions in ascending order. \<open>LINTING_VERSION\<close>, meant to be the oldest tested
  version, is then \<open>"3.13"\<close> although \<open>"3.9"\<close> is tested. The list does hold exactly the
  versions that are not ignored and is not empty.
\<close>

theorem TESTED_VERSIONS_default_order:
  "TESTED_VERSIONS (TEST_CONFIG None) = Inr [''3.13'', ''3.9'']
   \<and> LINTING_VERSION (TEST_CONFIG None) = Inr ''3.13''"
proof -
  have "TEST_CONFIG None ''ignored_versions'' =
       Some (PyStrList [''2.7'', ''3.7'', ''3.8'', ''3.10'', ''3.11'', ''3.12''])"
    by (simp add: TEST_CONFIG_def TEST_CONFIG_OVERRIDE_def TEST_CONFIG_default_def)
  then have tv: "TESTED_VERSIONS (TEST_CONFIG None) = Inr [''3.13'', ''3.9'']"
    by (simp add: TESTED_VERSIONS_def IGNORED_VERSIONS_def subscript_def
        not_in_comprehension_list ALL_VERSIONS_def)
  then show ?thesis
    by (simp add: LINTING_VERSION_def)
qed

section \<open>Properties of the environment for the test runner\<close>

lemma fold_setitem:
  "distinct (map fst d) \<Longrightarrow> map_of (fold (\<lambda>(k, v). setitem k v) d ret) = map_of ret ++ map_of d"
proof (induction d arbitrary: ret)
  case Nil
  then show ?case by simp
next
  case (Cons a d)
  obtain k v where a: "a = (k, v)" by (cases a)
  from Cons.prems a have nk: "k \<notin> dom (map_of d)" and dd: "distinct (map fst d)"
    by (auto simp: dom_map_of_conv_image_fst)
  have e: "map_of (a # d) = (map_of d)(k \<mapsto> v)"
    by (simp add: a)
  have "map_of (fold (\<lambda>(k, v). setitem k v) (a # d) ret)
      = map_of (setitem k v ret) ++ map_of d"
    using Cons.IH [OF dd] a by simp
  also have "\<dots> = (map_of ret)(k \<mapsto> v) ++ map_of d"
    by (simp add: setitem_def update_conv')
  also have "\<dots> = map_of ret ++ (map_of d)(k \<mapsto> v)"
    using nk by (metis map_add_upd_left map_add_upd)
  finally show ?case unfolding e .
qed

text \<open>
  C8. When the environment variable named by \<open>gcloud_project_env\<close> is unset,
  \<open>get_pytest_env_vars\<close> raises \<open>KeyError\<close> for that name and returns nothing. When it is
  set and \<open>envs\<close> is a dictionary, the result holds the variable's value under both
  \<open>GOOGLE_CLOUD_PROJECT\<close> and \<open>GCLOUD_PROJECT\<close>, overridden by the entries of \<open>envs\<close>.
\<close>

theorem get_pytest_env_vars_spec:
  "(cfg ''gcloud_project_env'' = Some (PyStr key) \<and> environ key = None
      \<longrightarrow> get_pytest_env_vars cfg environ = Inl (KeyError key))
   \<and> (cfg ''gcloud_project_env'' = Some (PyStr key) \<and> environ key = Some v
       \<and> cfg ''envs'' = Some (PyStrDict envs) \<and> distinct (map fst envs)
      \<longrightarrow> (\<exists>ret. get_pytest_env_vars cfg environ = Inr ret
            \<and> map_of ret
                = [''GOOGLE_CLOUD_PROJECT'' \<mapsto> v, ''GCLOUD_PROJECT'' \<mapsto> v] ++ map_of envs))"
proof (intro conjI impI)
  assume "cfg ''gcloud_project_env'' = Some (PyStr key) \<and> environ key = None"
  then show "get_pytest_env_vars cfg environ = Inl (KeyError key)"
    by (simp add: get_pytest_env_vars_def bind_err_def subscript_def)
next
  assume a: "cfg ''gcloud_project_env'' = Some (PyStr key) \<and> environ key = Some v
       \<and> cfg ''envs'' = Some (PyStrDict envs) \<and> distinct (map fst envs)"
  let ?base = "setitem ''GCLOUD_PROJECT'' v (setitem ''GOOGLE_CLOUD_PROJECT'' v [])"
  from a have r: "get_pytest_env_vars cfg environ
      = Inr (fold (\<lambda>(k, v). setitem k v) envs ?base)"
    by (simp add: get_pytest_env_vars_def bind_err_def subscript_def)
  have b: "map_of ?base = [''GOOGLE_CLOUD_PROJECT'' \<mapsto> v, ''GCLOUD_PROJECT'' \<mapsto> v]"
    by (rule ext) (simp add: setitem_def update_conv')
  from a have "map_of (fold (\<lambda>(k, v). setitem k v) envs ?base) = map_of ?base ++ map_of envs"
    by (simp add: fold_setitem)
  with r b show "\<exists>ret. get_pytest_env_vars cfg environ = Inr ret
            \<and> map_of ret
                = [''GOOGLE_CLOUD_PROJECT'' \<mapsto> v, ''GCLOUD_PROJECT'' \<mapsto> v] ++ map_of envs"
    by simp
qed

theorem get_pytest_env_vars_spec_witness:
  "get_pytest_env_vars (TEST_CONFIG None) Map.empty = Inl (KeyError ''GOOGLE_CLOUD_PROJECT'')
   \<and> (\<exists>ret. get_pytest_env_vars
          (TEST_CONFIG (Some [''envs'' \<mapsto> PyStrDict [(''REGION'', ''eu'')]]))
          [''GOOGLE_CLOUD_PROJECT'' \<mapsto> ''proj''] = Inr ret
        \<and> map_of ret ''GCLOUD_PROJECT'' = Some ''proj''
        \<and> map_of ret ''GOOGLE_CLOUD_PROJECT'' = Some ''proj''
        \<and> map_of ret ''REGION'' = Some ''eu'')"
proof -
  let ?cfg = "TEST_CONFIG (Some [''envs'' \<mapsto> PyStrDict [(''REGION'', ''eu'')]])"
  have h1: "TEST_CONFIG None ''gcloud_project_env'' = Some (PyStr ''GOOGLE_CLOUD_PROJECT'')"
    by (simp add: TEST_CONFIG_def TEST_CONFIG_OVERRIDE_def TEST_CONFIG_default_def)
  have h2: "?cfg ''gcloud_project_env'' = Some (PyStr ''GOOGLE_CLOUD_PROJECT'')"
    by (simp add: TEST_CONFIG_def TEST_CONFIG_OVERRIDE_def TEST_CONFIG_default_def)
  have h3: "?cfg ''envs'' = Some (PyStrDict [(''REGION'', ''eu'')])"
    by (simp add: TEST_CONFIG_def TEST_CONFIG_OVERRIDE_def)
  from get_pytest_env_vars_spec [of "TEST_CONFIG None" "''GOOGLE_CLOUD_PROJECT''" Map.empty] h1
  have a: "get_pytest_env_vars (TEST_CONFIG None) Map.empty = Inl (KeyError ''GOOGLE_CLOUD_PROJECT'')"
    by simp
  from get_pytest_env_vars_spec [of ?cfg "''GOOGLE_CLOUD_PROJECT''"
      "[''GOOGLE_CLOUD_PROJECT'' \<mapsto> ''proj'']" "''proj''" "[(''REGION'', ''eu'')]"] h2 h3
  obtain ret where r: "get_pytest_env_vars ?cfg [''GOOGLE_CLOUD_PROJECT'' \<mapsto> ''proj''] = Inr ret"
    and m: "map_of ret = [''GOOGLE_CLOUD_PROJECT'' \<mapsto> ''proj'', ''GCLOUD_PROJECT'' \<mapsto> ''proj'']
        ++ map_of [(''REGION'', ''eu'')]"
    by auto
  from m have "map_of ret ''GCLOUD_PROJECT'' = Some ''proj''"
    "map_of ret ''GOOGLE_CLOUD_PROJECT'' = Some ''proj''"
    "map_of ret ''REGION'' = Some ''eu''"
    by simp_all
  with a r show ?thesis by blast
qed

section \<open>Properties of the repository-root lookup\<close>

lemma loop_found:
  "k < n \<Longrightarrow> exists_path fs ((parent ^^ k) p @ [''.git'']) \<Longrightarrow>
   (\<forall>j<k. \<not> exists_path fs ((parent ^^ j) p @ [''.git''])) \<Longrightarrow>
   repo_root_loop n fs (Some p) = Inr (str_path ((parent ^^ k) p))"
proof (induction n arbitrary: k p)
  case 0
  then show ?case by simp
next
  case (Suc n)
  show ?case
  proof (cases k)
    case 0
    with Suc.prems show ?thesis by simp
  next
    case (Suc k')
    with Suc.prems have no: "\<not> exists_path fs (p @ [''.git''])" by force
    have "repo_root_loop n fs (Some (parent p)) = Inr (str_path ((parent ^^ k') (parent p)))"
    proof (rule Suc.IH)
      show "k' < n" using Suc.prems(1) Suc by simp
      show "exists_path fs ((parent ^^ k') (parent p) @ [''.git''])"
        using Suc.prems(2) Suc by (simp add: funpow_swap1)
      show "\<forall>j<k'. \<not> exists_path fs ((parent ^^ j) (parent p) @ [''.git''])"
      proof (intro allI impI)
        fix j assume "j < k'"
        then have "Suc j < k" using Suc by simp
        with Suc.prems(3) have "\<not> exists_path fs ((parent ^^ Suc j) p @ [''.git''])" by blast
        then show "\<not> exists_path fs ((parent ^^ j) (parent p) @ [''.git''])"
          by (simp add: funpow_swap1)
      qed
    qed
    with no Suc show ?thesis by (simp add: funpow_swap1)
  qed
qed

lemma loop_none:
  "(\<forall>j<n. \<not> exists_path fs ((parent ^^ j) p @ [''.git''])) \<Longrightarrow>
   repo_root_loop n fs (Some p) = Inl (Exception ''Unable to detect repository root.'')"
proof (induction n arbitrary: p)
  case 0
  then show ?case by simp
next
  case (Suc n)
  from Suc.prems have no: "\<not> exists_path fs (p @ [''.git''])" by force
  have "\<forall>j<n. \<not> exists_path fs ((parent ^^ j) (parent p) @ [''.git''])"
  proof (intro allI impI)
    fix j assume "j < n"
    then have "Suc j < Suc n" by simp
    with Suc.prems have "\<not> exists_path fs ((parent ^^ Suc j) p @ [''.git''])" by blast
    then show "\<not> exists_path fs ((parent ^^ j) (parent p) @ [''.git''])"
      by (simp add: funpow_swap1)
  qed
  from Suc.IH [OF this] no show ?case by simp
qed

text \<open>
  C2, as the code has it. The lookup inspects ten directories: the starting directory
  and its nine nearest ancestors, nearest first. It returns the first of them that
  contains an entry \<open>.git\<close>, and raises \<open>Exception("Unable to detect repository root.")\<close>
  when none of the ten does.
\<close>

theorem get_repo_root_spec:
  "(k < 10 \<and> exists_path fs ((parent ^^ k) cwd @ [''.git''])
      \<and> (\<forall>j<k. \<not> exists_path fs ((parent ^^ j) cwd @ [''.git'']))
      \<longrightarrow> get_repo_root fs cwd = Inr (str_path ((parent ^^ k) cwd)))
   \<and> ((\<forall>j<10. \<not> exists_path fs ((parent ^^ j) cwd @ [''.git'']))
      \<longrightarrow> get_repo_root fs cwd = Inl (Exception ''Unable to detect repository root.''))"
  unfolding get_repo_root_def using loop_found [of k 10 fs cwd] loop_none [of 10 fs cwd]
  by blast

theorem get_repo_root_spec_witness:
  "get_repo_root [[''home'', ''repo'', ''.git'']] [''home'', ''repo'', ''samples'', ''app'']
     = Inr ''/home/repo''
   \<and> get_repo_root [] [''home'', ''repo'', ''samples'', ''app'']
     = Inl (Exception ''Unable to detect repository root.'')"
proof -
  let ?fs = "[[''home'', ''repo'', ''.git'']]"
  let ?cwd = "[''home'', ''repo'', ''samples'', ''app'']"
  have p2: "(parent ^^ 2) ?cwd = [''home'', ''repo'']"
    by (simp add: parent_def numeral_2_eq_2)
  have h1: "(2::nat) < 10 \<and> exists_path ?fs ((parent ^^ 2) ?cwd @ [''.git''])
      \<and> (\<forall>j<2. \<not> exists_path ?fs ((parent ^^ j) ?cwd @ [''.git'']))"
    unfolding p2 by (simp add: exists_path_def parent_def less_Suc_eq numeral_2_eq_2)
  have h2: "\<forall>j<10. \<not> exists_path [] ((parent ^^ j) ?cwd @ [''.git''])"
    by (simp add: exists_path_def)
  from get_repo_root_spec [of 2 ?fs ?cwd] h1
  have "get_repo_root ?fs ?cwd = Inr (str_path ((parent ^^ 2) ?cwd))" by blast
  then have a: "get_repo_root ?fs ?cwd = Inr ''/home/repo''"
    unfolding p2 by (simp add: str_path_def)
  from get_repo_root_spec [of 0 "[]" ?cwd] h2
  have b: "get_repo_root [] ?cwd = Inl (Exception ''Unable to detect repository root.'')"
    by blast
  from a b show ?thesis by simp
qed

text \<open>
  C2 as stated does not hold at the tenth ancestor: with \<open>.git\<close> in the filesystem root
  and the starting directory ten levels below it, the marker is within ten ancestor
  levels, yet the lookup raises.
\<close>

theorem get_repo_root_tenth_ancestor_counterexample:
  "exists_path [[''.git'']]
     ((parent ^^ 10) [''a'', ''b'', ''c'', ''d'', ''e'', ''f'', ''g'', ''h'', ''i'', ''j'']
        @ [''.git''])
   \<and> get_repo_root [[''.git'']] [''a'', ''b'', ''c'', ''d'', ''e'', ''f'', ''g'', ''h'', ''i'', ''j'']
       = Inl (Exception ''Unable to detect repository root.'')"
  by (simp add: get_repo_root_def exists_path_def parent_def eval_nat_numeral)

section \<open>Properties of the local import names\<close>

text \<open>
  C9 fails on the code. A directory holding the Python file \<open>main.py\<close> and the
  subdirectory \<open>cache\<close> yields only \<open>main\<close>: \<open>cache\<close> is a substring of \<open>__pycache__\<close>
  and is dropped by the substring test, although it is a subdirectory other than
  \<open>__pycache__\<close>.
\<close>

theorem determine_local_import_names_substring:
  "determine_local_import_names [(''cache'', Dir), (''main.py'', File [])] = [''main'']
   \<and> isdir [(''cache'', Dir), (''main.py'', File [])] ''cache''"
  by (simp add: determine_local_import_names_def listdir_def splitext_def isdir_def
      sublist_code)

section \<open>Properties of the test task\<close>



lemma set_glob_star:
  "set (glob_star pre suf d)
     = {n \<in> set (listdir d). \<not> prefix ''.'' n \<and> (\<exists>x. n = pre @ x @ suf)}"
  by (auto simp: glob_star_def prefix_def suffix_def)

text \<open>
  C7, as the code has it. The test task finds tests exactly when some top-level entry,
  of whatever kind, has a name that matches \<open>*_test.py\<close> without starting with a dot,
  or matches \<open>test_*.py\<close>, or is \<open>tests\<close>.
\<close>

theorem test_list_nonempty_iff:
  "test_list d \<noteq> [] \<longleftrightarrow>
     (\<exists>n \<in> set (listdir d).
        (\<not> prefix ''.'' n \<and> (\<exists>x. n = x @ ''_test.py''))
        \<or> (\<exists>x. n = ''test_'' @ x @ ''.py'')
        \<or> n = ''tests'')"
proof -
  have "test_list d \<noteq> [] \<longleftrightarrow> set (test_list d) \<noteq> {}"
    by simp
  also have "set (test_list d) =
      {n \<in> set (listdir d). \<not> prefix ''.'' n \<and> (\<exists>x. n = x @ ''_test.py'')}
      \<union> {n \<in> set (listdir d). \<not> prefix ''.'' n \<and> (\<exists>x. n = ''test_'' @ x @ ''.py'')}
      \<union> {n \<in> set (listdir d). n = ''tests''}"
    unfolding test_list_def set_append set_glob_star
    by (auto simp: glob_literal_def path_exists_def listdir_def map_of_eq_None_iff)
  also have "\<dots> \<noteq> {} \<longleftrightarrow>
     (\<exists>n \<in> set (listdir d).
        (\<not> prefix ''.'' n \<and> (\<exists>x. n = x @ ''_test.py''))
        \<or> (\<exists>x. n = ''test_'' @ x @ ''.py'')
        \<or> n = ''tests'')"
    by (auto simp: prefix_def)
  finally show ?thesis .
qed

theorem test_list_nonempty_iff_witness:
  "test_list [(''main.py'', File []), (''main_test.py'', File [])] \<noteq> []
   \<and> (\<exists>n \<in> set (listdir [(''main.py'', File []), (''main_test.py'', File [])]).
        (\<not> prefix ''.'' n \<and> (\<exists>x. n = x @ ''_test.py''))
        \<or> (\<exists>x. n = ''test_'' @ x @ ''.py'')
        \<or> n = ''tests'')"
proof -
  have h: "test_list [(''main.py'', File []), (''main_test.py'', File [])] \<noteq> []"
    by (simp add: test_list_def glob_star_def glob_literal_def listdir_def path_exists_def
        suffix_def)
  show ?thesis
    using h test_list_nonempty_iff [of "[(''main.py'', File []), (''main_test.py'', File [])]"]
    by blast
qed

text \<open>
  C7 as stated does not hold for a regular file named \<open>tests\<close>: it is neither a
  directory nor a match of \<open>*_test.py\<close> or \<open>test_*.py\<close>, yet the task finds tests.
\<close>

theorem test_list_regular_file_counterexample:
  "test_list [(''tests'', File [])] = [''tests'']
   \<and> \<not> isdir [(''tests'', File [])] ''tests''
   \<and> glob_star [] ''_test.py'' [(''tests'', File [])] = []
   \<and> glob_star ''test_'' ''.py'' [(''tests'', File [])] = []"
  by (simp add: test_list_def glob_star_def glob_literal_def listdir_def path_exists_def
      isdir_def suffix_def)

lemma bind_io_Run:
  assumes "bind_io m f = (r, es)"
    and "Run a s e \<in> set es"
    and "\<forall>a s e. Run a s e \<notin> set (snd m)"
  obtains x es2 where "fst m = Inr x" and "f x = (r, es2)" and "Run a s e \<in> set es2"
proof (cases m)
  case (Pair o1 es1)
  show ?thesis
  proof (cases o1)
    case (Inl err)
    with Pair assms show ?thesis by (simp add: bind_io_def)
  next
    case (Inr x)
    obtain r2 es2 where f: "f x = (r2, es2)" by (cases "f x")
    with Pair Inr assms(1) have "r = r2" "es = es1 @ es2"
      by (simp_all add: bind_io_def)
    with Pair Inr assms(2,3) f that [of x es2] show ?thesis by auto
  qed
qed

lemma no_Run_lift_io: "Run a s e \<notin> set (snd (lift_io r))"
  by (simp add: lift_io_def)

lemma no_Run_install_pip: "Run a s e \<notin> set (snd (install_pip cfg w))"
  by (auto simp: install_pip_def bind_io_def lift_io_def session_install_def
      split: sum.splits prod.splits if_splits)

lemma no_Run_install_requirements: "Run a s e \<notin> set (snd (install_requirements w))"
  by (auto simp: install_requirements_def bind_io_def lift_io_def return_io_def
      session_install_def split: sum.splits prod.splits if_splits)

lemma no_Run_install_test_requirements:
  "Run a s e \<notin> set (snd (install_test_requirements w packages))"
  by (auto simp: install_test_requirements_def bind_io_def lift_io_def return_io_def
      session_install_def split: sum.splits prod.splits if_splits option.splits)

lemma no_Run_install_from_source: "Run a s e \<notin> set (snd (install_from_source w))"
  by (auto simp: install_from_source_def bind_io_def lift_io_def return_io_def
      session_install_def split: sum.splits prod.splits if_splits)

lemma no_Run_run_post_install: "Run a s e \<notin> set (snd (run_post_install post_install))"
  by (simp add: run_post_install_def return_io_def split: option.splits)

text \<open>
  C4. Whenever the test task has started the test runner, the runner was given the
  success codes 0 and 5, and the task succeeds if the runner exits with 0 or with 5 and
  fails with \<open>CommandFailed\<close> on any other exit status.
\<close>

theorem session_tests_exit_codes:
  assumes "session_tests cfg w posargs post_install = (r, es)"
    and "Run args codes env \<in> set es"
  shows "codes = [0, 5]
     \<and> r = (if exit_code w (Run args codes env) = 0 \<or> exit_code w (Run args codes env) = 5
            then Inr () else Inl CommandFailed)"
proof -
  have present: "length (test_list (os_dir w)) \<noteq> 0"
    using assms by (auto simp: session_tests_def)
  let ?k7 = "\<lambda>concurrent env'.
      session_run w (''pytest'' # PYTEST_COMMON_ARGS @ posargs @ concurrent) [0, 5] env'"
  let ?k6 = "\<lambda>concurrent.
      bind_io (lift_io (get_pytest_env_vars cfg (os_environ w))) (?k7 concurrent)"
  let ?k5 = "\<lambda>packages (u::unit). bind_io (lift_io (concurrent_args packages)) ?k6"
  let ?k4 = "\<lambda>packages (u::unit). bind_io (run_post_install post_install) (?k5 packages)"
  let ?k3 = "\<lambda>packages. bind_io (install_from_source w) (?k4 packages)"
  let ?k2 = "\<lambda>packages. bind_io (install_test_requirements w packages) ?k3"
  let ?k1 = "\<lambda>u::unit. bind_io (install_requirements w) ?k2"
  from assms(1) present have "bind_io (install_pip cfg w) ?k1 = (r, es)"
    by (simp add: session_tests_def)
  then obtain u1 :: unit and es1 where "?k1 u1 = (r, es1)" "Run args codes env \<in> set es1"
    by (rule bind_io_Run [OF _ assms(2)]) (simp_all add: no_Run_install_pip)
  then obtain p1 es2 where "?k2 p1 = (r, es2)" "Run args codes env \<in> set es2"
    by (rule bind_io_Run) (simp_all add: no_Run_install_requirements)
  then obtain p2 es3 where "?k3 p2 = (r, es3)" "Run args codes env \<in> set es3"
    by (rule bind_io_Run) (simp_all add: no_Run_install_test_requirements)
  then obtain u4 :: unit and es4 where "?k4 p2 u4 = (r, es4)" "Run args codes env \<in> set es4"
    by (rule bind_io_Run) (simp_all add: no_Run_install_from_source)
  then obtain u5 :: unit and es5 where "?k5 p2 u5 = (r, es5)" "Run args codes env \<in> set es5"
    by (rule bind_io_Run) (simp_all add: no_Run_run_post_install)
  then obtain c es6 where "?k6 c = (r, es6)" "Run args codes env \<in> set es6"
    by (rule bind_io_Run) (simp_all add: no_Run_lift_io)
  then obtain env' es7 where "?k7 c env' = (r, es7)" "Run args codes env \<in> set es7"
    by (rule bind_io_Run) (simp_all add: no_Run_lift_io)
  then show ?thesis
    by (auto simp: session_run_def)
qed

theorem session_tests_exit_codes_witness:
  "session_tests (TEST_CONFIG None)
     \<lparr>os_environ = [''GOOGLE_CLOUD_PROJECT'' \<mapsto> ''proj''], os_getcwd = [''work''], os_fs = [],
      os_dir = [(''main_test.py'', File []), (''requirements.txt'', File ''pytest'')],
      exit_code = (\<lambda>c. case c of Run a s e \<Rightarrow> 5 | _ \<Rightarrow> 0)\<rparr>
     [] None
   = (Inr (),
      [Install [''--upgrade'', ''pip''],
       Install [''-r'', ''requirements.txt'', ''--only-binary'', '':all''],
       Run [''pytest'', ''--junitxml=sponge_log.xml''] [0, 5]
         [(''GOOGLE_CLOUD_PROJECT'', ''proj''), (''GCLOUD_PROJECT'', ''proj'')]])
   \<and> session_tests (TEST_CONFIG None)
     \<lparr>os_environ = [''GOOGLE_CLOUD_PROJECT'' \<mapsto> ''proj''], os_getcwd = [''work''], os_fs = [],
      os_dir = [(''main_test.py'', File []), (''requirements.txt'', File ''pytest'')],
      exit_code = (\<lambda>c. case c of Run a s e \<Rightarrow> 1 | _ \<Rightarrow> 0)\<rparr>
     [] None
   = (Inl CommandFailed,
      [Install [''--upgrade'', ''pip''],
       Install [''-r'', ''requirements.txt'', ''--only-binary'', '':all''],
       Run [''pytest'', ''--junitxml=sponge_log.xml''] [0, 5]
         [(''GOOGLE_CLOUD_PROJECT'', ''proj''), (''GCLOUD_PROJECT'', ''proj'')]])"
proof -
  let ?w5 = "\<lparr>os_environ = [''GOOGLE_CLOUD_PROJECT'' \<mapsto> ''proj''], os_getcwd = [''work''],
      os_fs = [],
      os_dir = [(''main_test.py'', File []), (''requirements.txt'', File ''pytest'')],
      exit_code = (\<lambda>c. case c of Run a s e \<Rightarrow> 5 | _ \<Rightarrow> (0::nat))\<rparr>"
  let ?w1 = "\<lparr>os_environ = [''GOOGLE_CLOUD_PROJECT'' \<mapsto> ''proj''], os_getcwd = [''work''],
      os_fs = [],
      os_dir = [(''main_test.py'', File []), (''requirements.txt'', File ''pytest'')],
      exit_code = (\<lambda>c. case c of Run a s e \<Rightarrow> 1 | _ \<Rightarrow> (0::nat))\<rparr>"
  let ?run = "Run [''pytest'', ''--junitxml=sponge_log.xml''] [0, 5]
         [(''GOOGLE_CLOUD_PROJECT'', ''proj''), (''GCLOUD_PROJECT'', ''proj'')]"
  let ?es = "[Install [''--upgrade'', ''pip''],
       Install [''-r'', ''requirements.txt'', ''--only-binary'', '':all''], ?run]"
  obtain r5 es5 where e5: "session_tests (TEST_CONFIG None) ?w5 [] None = (r5, es5)"
    by (cases "session_tests (TEST_CONFIG None) ?w5 [] None")
  obtain r1 es1 where e1: "session_tests (TEST_CONFIG None) ?w1 [] None = (r1, es1)"
    by (cases "session_tests (TEST_CONFIG None) ?w1 [] None")
  have t5: "snd (session_tests (TEST_CONFIG None) ?w5 [] None) = ?es"
    by code_simp
  have t1: "snd (session_tests (TEST_CONFIG None) ?w1 [] None) = ?es"
    by code_simp
  from e5 t5 have m5: "?run \<in> set es5" by simp
  from e1 t1 have m1: "?run \<in> set es1" by simp
  from session_tests_exit_codes [OF e5 m5] have "r5 = Inr ()" by simp
  moreover from session_tests_exit_codes [OF e1 m1] have "r1 = Inl CommandFailed" by simp
  ultimately show ?thesis
    using e5 e1 t5 t1 by simp
qed

text \<open>
  C10. With test files present and no \<open>requirements.txt\<close>, once pip itself is
  installed the task ends in \<open>UnboundLocalError\<close> for \<open>packages\<close>: either at
  \<open>packages += rtfile.read()\<close> when \<open>requirements-test.txt\<close> is a file, or, without
  that file, at the test for the parallel plugin once the steps before it have passed.
\<close>

theorem session_tests_unbound_packages:
  "test_list (os_dir w) \<noteq> []
   \<and> \<not> path_exists (os_dir w) ''requirements.txt''
   \<and> fst (install_pip cfg w) = Inr ()
   \<and> ((\<exists>txt. map_of (os_dir w) ''requirements-test.txt'' = Some (File txt))
      \<or> (\<not> path_exists (os_dir w) ''requirements-test.txt''
          \<and> fst (install_from_source w) = Inr ()
          \<and> fst (run_post_install post_install) = Inr ()))
   \<longrightarrow> fst (session_tests cfg w posargs post_install) = Inl (UnboundLocalError ''packages'')"
proof (intro impI, elim conjE)
  let ?unbound =
    "fst (session_tests cfg w posargs post_install) = Inl (UnboundLocalError ''packages'')"
  assume present: "test_list (os_dir w) \<noteq> []"
    and noreq: "\<not> path_exists (os_dir w) ''requirements.txt''"
    and pip: "fst (install_pip cfg w) = Inr ()"
    and alt: "(\<exists>txt. map_of (os_dir w) ''requirements-test.txt'' = Some (File txt))
      \<or> (\<not> path_exists (os_dir w) ''requirements-test.txt''
          \<and> fst (install_from_source w) = Inr ()
          \<and> fst (run_post_install post_install) = Inr ())"
  obtain es0 where pip0: "install_pip cfg w = (Inr (), es0)"
    using pip by (cases "install_pip cfg w") simp
  have req: "install_requirements w = (Inr None, [])"
    using noreq by (simp add: install_requirements_def return_io_def)
  from alt consider
      (test_file) body where "map_of (os_dir w) ''requirements-test.txt'' = Some (File body)"
    | (check) "\<not> path_exists (os_dir w) ''requirements-test.txt''"
        "fst (install_from_source w) = Inr ()" "fst (run_post_install post_install) = Inr ()"
    by blast
  then show ?unbound
  proof cases
    case test_file
    then have "install_test_requirements w None = (Inl (UnboundLocalError ''packages''), [])"
      by (simp add: install_test_requirements_def path_exists_def open_read_def
          lift_io_def bind_io_def)
    with present pip0 req show ?unbound
      by (simp add: session_tests_def bind_io_def)
  next
    case check
    then have treq: "install_test_requirements w None = (Inr None, [])"
      by (simp add: install_test_requirements_def return_io_def)
    from check obtain es1 where src: "install_from_source w = (Inr (), es1)"
      by (cases "install_from_source w") simp
    from check obtain es2 where hook: "run_post_install post_install = (Inr (), es2)"
      by (cases "run_post_install post_install") simp
    from present pip0 req treq src hook show ?unbound
      by (simp add: session_tests_def bind_io_def concurrent_args_def lift_io_def)
  qed
qed

theorem session_tests_unbound_packages_witness:
  "fst (session_tests (TEST_CONFIG None)
     \<lparr>os_environ = [''GOOGLE_CLOUD_PROJECT'' \<mapsto> ''proj''], os_getcwd = [''work''], os_fs = [],
      os_dir = [(''main_test.py'', File []), (''requirements-test.txt'', File ''pytest'')],
      exit_code = (\<lambda>c. 0)\<rparr>
     [] None) = Inl (UnboundLocalError ''packages'')
   \<and> fst (session_tests (TEST_CONFIG None)
     \<lparr>os_environ = [''GOOGLE_CLOUD_PROJECT'' \<mapsto> ''proj''], os_getcwd = [''work''], os_fs = [],
      os_dir = [(''main_test.py'', File [])],
      exit_code = (\<lambda>c. 0)\<rparr>
     [] None) = Inl (UnboundLocalError ''packages'')"
proof -
  let ?wa = "\<lparr>os_environ = [''GOOGLE_CLOUD_PROJECT'' \<mapsto> ''proj''], os_getcwd = [''work''],
      os_fs = [],
      os_dir = [(''main_test.py'', File []), (''requirements-test.txt'', File ''pytest'')],
      exit_code = (\<lambda>c. 0::nat)\<rparr>"
  let ?wb = "\<lparr>os_environ = [''GOOGLE_CLOUD_PROJECT'' \<mapsto> ''proj''], os_getcwd = [''work''],
      os_fs = [],
      os_dir = [(''main_test.py'', File [])],
      exit_code = (\<lambda>c. 0::nat)\<rparr>"
  have pa: "test_list (os_dir ?wa) \<noteq> []" and pb: "test_list (os_dir ?wb) \<noteq> []"
    by (simp_all add: test_list_def glob_star_def glob_literal_def listdir_def path_exists_def
        suffix_def)
  have ra: "\<not> path_exists (os_dir ?wa) ''requirements.txt''"
    and rb: "\<not> path_exists (os_dir ?wb) ''requirements.txt''"
    and tb: "\<not> path_exists (os_dir ?wb) ''requirements-test.txt''"
    by (simp_all add: path_exists_def)
  have ia: "fst (install_pip (TEST_CONFIG None) ?wa) = Inr ()"
    and ib: "fst (install_pip (TEST_CONFIG None) ?wb) = Inr ()"
    by (simp_all add: install_pip_def TEST_CONFIG_def TEST_CONFIG_OVERRIDE_def
        TEST_CONFIG_default_def subscript_def lift_io_def bind_io_def session_install_def)
  have ta: "\<exists>body. map_of (os_dir ?wa) ''requirements-test.txt'' = Some (File body)"
    by simp
  have sb: "fst (install_from_source ?wb) = Inr ()"
    by (simp add: install_from_source_def INSTALL_LIBRARY_FROM_SOURCE_def return_io_def)
  have hb: "fst (run_post_install None) = Inr ()"
    by (simp add: run_post_install_def return_io_def)
  from pa ra ia ta
    session_tests_unbound_packages [where w = ?wa and cfg = "TEST_CONFIG None"
      and post_install = None and posargs = "[]"]
  have a: "fst (session_tests (TEST_CONFIG None) ?wa [] None) = Inl (UnboundLocalError ''packages'')"
    by blast
  from pb rb ib tb sb hb
    session_tests_unbound_packages [where w = ?wb and cfg = "TEST_CONFIG None"
      and post_install = None and posargs = "[]"]
  have b: "fst (session_tests (TEST_CONFIG None) ?wb [] None) = Inl (UnboundLocalError ''packages'')"
    by blast
  from a b show ?thesis by simp
qed

end
